theory Spec2Isabelle
  imports Main
begin

section \<open>The browser platform\<close>

text \<open>
  \<^verbatim>\<open>use-scroll-restoration.ts\<close> is forty lines of glue between four browser
  facilities: \<^verbatim>\<open>sessionStorage\<close>, \<^verbatim>\<open>JSON\<close>, the scroll offsets of the
  window and of DOM elements, and \<^verbatim>\<open>window.history.state\<close>. This section models
  those facilities; the sections after it translate the repository's functions line by line.

  Exceptions are values. \<open>SyntaxError\<close> is what \<^verbatim>\<open>JSON.parse\<close> throws,
  \<open>TypeError\<close> is a property read on \<^verbatim>\<open>null\<close> or \<^verbatim>\<open>undefined\<close>.
  \<open>Unmodelled\<close> is not a JavaScript exception: it marks an input on which this model gives
  no verdict (a JSON number with a fraction or an exponent, a \<^verbatim>\<open>\u\<close> escape, a
  string or an object passed as a scroll offset).
\<close>

datatype error = SyntaxError | TypeError | Unmodelled

text \<open>
  Scroll offsets are JavaScript numbers. The model takes the integral ones: \<open>int\<close>.
  Fractional offsets and the engine's conversion between doubles and decimal text are outside it.
\<close>

record scrollpos =
  pos_x :: int
  pos_y :: int

datatype jsval =
    JUndefined
  | JNull
  | JBool bool
  | JNum int
  | JStr string
  | JArr "jsval list"
  | JObj "(string \<times> jsval) list"

subsection \<open>\<^verbatim>\<open>JSON.stringify\<close> of a scroll position\<close>

definition digit_char :: "nat \<Rightarrow> char" where
  "digit_char d = ''0123456789'' ! d"

function show_nat :: "nat \<Rightarrow> string" where
  "show_nat n = (if n < 10 then [digit_char n] else show_nat (n div 10) @ [digit_char (n mod 10)])"
  by pat_completeness auto
termination
  by (relation "measure id") auto

declare show_nat.simps [simp del]

definition show_int :: "int \<Rightarrow> string" where
  "show_int i = (if i < 0 then CHR ''-'' # show_nat (nat (- i)) else show_nat (nat i))"

text \<open>
  \<^verbatim>\<open>JSON.stringify({ x: a, y: b })\<close> for integral \<open>a\<close>, \<open>b\<close>: the members in
  insertion order, no white space.
\<close>

definition JSON_stringify :: "scrollpos \<Rightarrow> string" where
  \<open>JSON_stringify p = ''{"x":'' @ show_int (pos_x p) @ '',"y":'' @ show_int (pos_y p) @ ''}''\<close>

subsection \<open>\<^verbatim>\<open>JSON.parse\<close>\<close>

definition is_ws :: "char \<Rightarrow> bool" where
  "is_ws c \<longleftrightarrow> c = CHR '' '' \<or> c = CHR 0x09 \<or> c = CHR 0x0A \<or> c = CHR 0x0D"

definition skip_ws :: "string \<Rightarrow> string" where
  "skip_ws cs = dropWhile is_ws cs"

definition is_digit :: "char \<Rightarrow> bool" where
  "is_digit c \<longleftrightarrow> c \<in> set ''0123456789''"

definition digit_val :: "char \<Rightarrow> nat" where
  "digit_val c = of_char c - 48"

fun digits_val :: "nat \<Rightarrow> string \<Rightarrow> nat \<times> string" where
  "digits_val acc [] = (acc, [])"
| "digits_val acc (c # cs) =
     (if is_digit c then digits_val (10 * acc + digit_val c) cs else (acc, c # cs))"

text \<open>
  A number: an optional minus sign, then \<^verbatim>\<open>0\<close> or a digit sequence without a leading
  zero. A fraction or an exponent after it is valid JSON whose value is not an integer: no verdict.
\<close>

definition parse_int_part :: "string \<Rightarrow> error + (nat \<times> string)" where
  "parse_int_part ds =
     (case ds of
        [] \<Rightarrow> Inl SyntaxError
      | d # r \<Rightarrow>
          if \<not> is_digit d then Inl SyntaxError
          else if d = CHR ''0'' then Inr (0, r)
          else Inr (digits_val 0 ds))"

definition parse_number :: "string \<Rightarrow> error + (jsval \<times> string)" where
  "parse_number cs =
     (let neg = (cs \<noteq> [] \<and> hd cs = CHR ''-'');
          ds = (if neg then tl cs else cs)
      in case parse_int_part ds of
           Inl e \<Rightarrow> Inl e
         | Inr (n, rest) \<Rightarrow>
             if rest \<noteq> [] \<and> hd rest \<in> set ''.eE'' then Inl Unmodelled
             else Inr (JNum (if neg then - int n else int n), rest))"

definition escapes :: "(char \<times> char) list" where
  \<open>escapes =
     [(CHR 0x22, CHR 0x22), (CHR 0x5C, CHR 0x5C), (CHR ''/'', CHR ''/''),
      (CHR ''b'', CHR 0x08), (CHR ''f'', CHR 0x0C), (CHR ''n'', CHR 0x0A),
      (CHR ''r'', CHR 0x0D), (CHR ''t'', CHR 0x09)]\<close>

text \<open>The characters of a string after its opening quote, up to the closing one.\<close>

fun parse_string :: "string \<Rightarrow> string \<Rightarrow> error + (string \<times> string)" where
  "parse_string acc [] = Inl SyntaxError"
| "parse_string acc [c] = (if c = CHR 0x22 then Inr (rev acc, []) else Inl SyntaxError)"
| "parse_string acc (c # e # r) =
     (if c = CHR 0x22 then Inr (rev acc, e # r)
      else if c = CHR 0x5C then
        (if e = CHR ''u'' then Inl Unmodelled
         else case map_of escapes e of
                None \<Rightarrow> Inl SyntaxError
              | Some ch \<Rightarrow> parse_string (ch # acc) r)
      else if (of_char c :: nat) < 32 then Inl SyntaxError
      else parse_string (c # acc) (e # r))"

definition parse_literal :: "string \<Rightarrow> error + (jsval \<times> string)" where
  "parse_literal cs =
     (if take 4 cs = ''null'' then Inr (JNull, drop 4 cs)
      else if take 4 cs = ''true'' then Inr (JBool True, drop 4 cs)
      else if take 5 cs = ''false'' then Inr (JBool False, drop 5 cs)
      else Inl SyntaxError)"

text \<open>
  Values, array elements and object members, by recursive descent. The first argument bounds
  the number of nested calls; \<open>JSON_parse\<close> starts it above what a text of that length can use.
\<close>

fun parse_value :: "nat \<Rightarrow> string \<Rightarrow> error + (jsval \<times> string)"
  and parse_elements :: "nat \<Rightarrow> jsval list \<Rightarrow> string \<Rightarrow> error + (jsval \<times> string)"
  and parse_members :: "nat \<Rightarrow> (string \<times> jsval) list \<Rightarrow> string \<Rightarrow> error + (jsval \<times> string)"
where
  "parse_value 0 cs = Inl Unmodelled"
| "parse_value (Suc n) cs =
     (case skip_ws cs of
        [] \<Rightarrow> Inl SyntaxError
      | c # r \<Rightarrow>
          if c = CHR ''{'' then
            (case skip_ws r of
               [] \<Rightarrow> Inl SyntaxError
             | c' # r' \<Rightarrow> if c' = CHR ''}'' then Inr (JObj [], r') else parse_members n [] (c' # r'))
          else if c = CHR ''['' then
            (case skip_ws r of
               [] \<Rightarrow> Inl SyntaxError
             | c' # r' \<Rightarrow> if c' = CHR '']'' then Inr (JArr [], r') else parse_elements n [] (c' # r'))
          else if c = CHR 0x22 then
            (case parse_string [] r of
               Inl e \<Rightarrow> Inl e
             | Inr (s, rest) \<Rightarrow> Inr (JStr s, rest))
          else if c = CHR ''-'' \<or> is_digit c then parse_number (c # r)
          else parse_literal (c # r))"
| "parse_elements 0 acc cs = Inl Unmodelled"
| "parse_elements (Suc n) acc cs =
     (case parse_value n cs of
        Inl e \<Rightarrow> Inl e
      | Inr (v, rest) \<Rightarrow>
          (case skip_ws rest of
             [] \<Rightarrow> Inl SyntaxError
           | c # r \<Rightarrow>
               if c = CHR '','' then parse_elements n (acc @ [v]) r
               else if c = CHR '']'' then Inr (JArr (acc @ [v]), r)
               else Inl SyntaxError))"
| "parse_members 0 acc cs = Inl Unmodelled"
| "parse_members (Suc n) acc cs =
     (case skip_ws cs of
        [] \<Rightarrow> Inl SyntaxError
      | c # r \<Rightarrow>
          if c \<noteq> CHR 0x22 then Inl SyntaxError
          else
            (case parse_string [] r of
               Inl e \<Rightarrow> Inl e
             | Inr (k, rest) \<Rightarrow>
                 (case skip_ws rest of
                    [] \<Rightarrow> Inl SyntaxError
                  | c2 # r2 \<Rightarrow>
                      if c2 \<noteq> CHR '':'' then Inl SyntaxError
                      else
                        (case parse_value n r2 of
                           Inl e \<Rightarrow> Inl e
                         | Inr (v, rest2) \<Rightarrow>
                             (case skip_ws rest2 of
                                [] \<Rightarrow> Inl SyntaxError
                              | c3 # r3 \<Rightarrow>
                                  if c3 = CHR '','' then parse_members n (acc @ [(k, v)]) r3
                                  else if c3 = CHR ''}'' then Inr (JObj (acc @ [(k, v)]), r3)
                                  else Inl SyntaxError)))))"

definition JSON_parse :: "string \<Rightarrow> error + jsval" where
  "JSON_parse s =
     (case parse_value (2 * length s + 2) s of
        Inl e \<Rightarrow> Inl e
      | Inr (v, rest) \<Rightarrow> if skip_ws rest = [] then Inr v else Inl SyntaxError)"

subsection \<open>Property reads and scroll offsets\<close>

text \<open>
  \<^verbatim>\<open>v.p\<close> on a parsed value, for the own properties of an object: a read on
  \<^verbatim>\<open>null\<close> throws, a later duplicate member wins, an absent one is
  \<^verbatim>\<open>undefined\<close>. The repository reads \<^verbatim>\<open>x\<close> and \<^verbatim>\<open>y\<close> only, which no
  prototype defines.
\<close>

fun get_prop :: "jsval \<Rightarrow> string \<Rightarrow> error + jsval" where
  "get_prop JUndefined p = Inl TypeError"
| "get_prop JNull p = Inl TypeError"
| "get_prop (JObj kvs) p = Inr (case map_of (rev kvs) p of Some v \<Rightarrow> v | None \<Rightarrow> JUndefined)"
| "get_prop v p = Inr JUndefined"

text \<open>
  An argument of \<^verbatim>\<open>scrollTo(x, y)\<close> is converted to a number, and a number that is not
  finite (\<^verbatim>\<open>undefined\<close> converts to \<^verbatim>\<open>NaN\<close>) counts as \<open>0\<close>.
\<close>

fun to_offset :: "jsval \<Rightarrow> error + int" where
  "to_offset (JNum n) = Inr n"
| "to_offset JUndefined = Inr 0"
| "to_offset JNull = Inr 0"
| "to_offset (JBool b) = Inr (if b then 1 else 0)"
| "to_offset v = Inl Unmodelled"

text \<open>
  The world the functions act on. \<open>document\<close> is \<^verbatim>\<open>document.querySelector\<close>: the
  element a selector matches first, \<open>None\<close> for \<^verbatim>\<open>null\<close>; elements are numbered.
  \<open>history_state\<close> is \<^verbatim>\<open>window.history.state\<close>: \<open>None\<close> when it is
  \<^verbatim>\<open>null\<close>, else its \<^verbatim>\<open>key\<close>. Not modelled: a selector that is not valid CSS,
  a storage that refuses a write, a scroll offset beyond the scrollable range (the browser would
  clamp it).
\<close>

record world =
  sessionStorage :: "string \<rightharpoonup> string"
  window_scroll :: scrollpos
  document :: "string \<rightharpoonup> nat"
  element_scroll :: "nat \<Rightarrow> scrollpos"
  history_state :: "string option"

definition window_scrollTo :: "int \<Rightarrow> int \<Rightarrow> world \<Rightarrow> world" where
  "window_scrollTo a b w = w\<lparr>window_scroll := \<lparr>pos_x = a, pos_y = b\<rparr>\<rparr>"

definition element_scrollTo :: "nat \<Rightarrow> int \<Rightarrow> int \<Rightarrow> world \<Rightarrow> world" where
  "element_scrollTo el a b w =
     w\<lparr>element_scroll := (element_scroll w)(el := \<lparr>pos_x = a, pos_y = b\<rparr>)\<rparr>"

text \<open>
  The two arguments of a \<^verbatim>\<open>scrollTo(scrollPos.x, scrollPos.y)\<close> call, evaluated left to
  right before the call is made.
\<close>

definition scroll_args :: "jsval \<Rightarrow> error + (int \<times> int)" where
  "scroll_args scrollPos =
     (case get_prop scrollPos ''x'' of
        Inl e \<Rightarrow> Inl e
      | Inr vx \<Rightarrow>
          (case get_prop scrollPos ''y'' of
             Inl e \<Rightarrow> Inl e
           | Inr vy \<Rightarrow>
               (case to_offset vx of
                  Inl e \<Rightarrow> Inl e
                | Inr a \<Rightarrow>
                    (case to_offset vy of
                       Inl e \<Rightarrow> Inl e
                     | Inr b \<Rightarrow> Inr (a, b)))))"

section \<open>The scroll-position store\<close>

text \<open>The storage key of a navigation key: the template \<^verbatim>\<open>`scrollPos:${key}`\<close>.\<close>

definition storage_key :: "string \<Rightarrow> string" where
  "storage_key key = ''scrollPos:'' @ key"

text \<open>
  \<^verbatim>\<open>if (selector)\<close>: an absent selector and the empty string are both falsy, so
  \<^verbatim>\<open>querySelector\<close> is reached with a non-empty selector only.
\<close>

definition truthy :: "string option \<Rightarrow> string option" where
  "truthy selector = (case selector of None \<Rightarrow> None | Some s \<Rightarrow> if s = [] then None else Some s)"

text \<open>The literal \<^verbatim>\<open>{ x: 0, y: 0 }\<close>.\<close>

definition origin :: jsval where
  "origin = JObj [(''x'', JNum 0), (''y'', JNum 0)]"

text \<open>
  The first two lines of \<^verbatim>\<open>restoreScrollPos\<close>, the same in both files (lines 25, 26 and
  135, 136): \<^verbatim>\<open>getItem\<close> gives \<^verbatim>\<open>null\<close> for an absent entry, and
  \<^verbatim>\<open>json ? JSON.parse(json) : { x: 0, y: 0 }\<close> takes the literal for \<^verbatim>\<open>null\<close> and
  for the empty string.
\<close>

definition stored_scrollPos :: "string \<Rightarrow> world \<Rightarrow> error + jsval" where
  "stored_scrollPos key w =
     (let json = sessionStorage w (storage_key key)
      in case json of
           None \<Rightarrow> Inr origin
         | Some j \<Rightarrow> if j = [] then Inr origin else JSON_parse j)"

subsection \<open>The TypeScript file (lines 7 to 44)\<close>

definition saveScrollPos :: "string \<Rightarrow> string option \<Rightarrow> world \<Rightarrow> world" where
  "saveScrollPos key selector w =
     (let scrollPos = window_scroll w;
          scrollPos =
            (case truthy selector of
               Some s \<Rightarrow>
                 (case document w s of
                    Some element \<Rightarrow> element_scroll w element
                  | None \<Rightarrow> scrollPos)
             | None \<Rightarrow> scrollPos)
      in w\<lparr>sessionStorage := (sessionStorage w)(storage_key key \<mapsto> JSON_stringify scrollPos)\<rparr>)"

definition restoreScrollPos :: "string \<Rightarrow> string option \<Rightarrow> world \<Rightarrow> error + world" where
  "restoreScrollPos key selector w =
     (case stored_scrollPos key w of
        Inl e \<Rightarrow> Inl e
      | Inr scrollPos \<Rightarrow>
          (case truthy selector of
             Some s \<Rightarrow>
               (case document w s of
                  Some element \<Rightarrow>
                    (case scroll_args scrollPos of
                       Inl e \<Rightarrow> Inl e
                     | Inr (a, b) \<Rightarrow> Inr (element_scrollTo element a b w))
                | None \<Rightarrow> Inr w)
           | None \<Rightarrow>
               (case scroll_args scrollPos of
                  Inl e \<Rightarrow> Inl e
                | Inr (a, b) \<Rightarrow> Inr (window_scrollTo a b w))))"

definition deleteScrollPos :: "string \<Rightarrow> world \<Rightarrow> world" where
  "deleteScrollPos key w = w\<lparr>sessionStorage := (sessionStorage w)(storage_key key := None)\<rparr>"

subsection \<open>The second file (lines 118 to 152)\<close>

text \<open>
  The second implementation reads and scrolls the element without testing it:
  \<^verbatim>\<open>element.scrollLeft\<close> and \<^verbatim>\<open>element.scrollTo\<close> on \<^verbatim>\<open>null\<close> throw a
  \<open>TypeError\<close>, in \<^verbatim>\<open>element.scrollTo(scrollPos.x, scrollPos.y)\<close> before the
  arguments are evaluated. Its \<^verbatim>\<open>deleteScrollPos\<close> is the one above.
\<close>

definition saveScrollPos_js :: "string \<Rightarrow> string option \<Rightarrow> world \<Rightarrow> error + world" where
  "saveScrollPos_js key selector w =
     (let scrollPos = window_scroll w
      in case (case truthy selector of
                 Some s \<Rightarrow>
                   (case document w s of
                      Some element \<Rightarrow> Inr (element_scroll w element)
                    | None \<Rightarrow> Inl TypeError)
               | None \<Rightarrow> Inr scrollPos) of
           Inl e \<Rightarrow> Inl e
         | Inr scrollPos \<Rightarrow>
             Inr (w\<lparr>sessionStorage :=
                      (sessionStorage w)(storage_key key \<mapsto> JSON_stringify scrollPos)\<rparr>))"

definition restoreScrollPos_js :: "string \<Rightarrow> string option \<Rightarrow> world \<Rightarrow> error + world" where
  "restoreScrollPos_js key selector w =
     (case stored_scrollPos key w of
        Inl e \<Rightarrow> Inl e
      | Inr scrollPos \<Rightarrow>
          (case truthy selector of
             Some s \<Rightarrow>
               (case document w s of
                  Some element \<Rightarrow>
                    (case scroll_args scrollPos of
                       Inl e \<Rightarrow> Inl e
                     | Inr (a, b) \<Rightarrow> Inr (element_scrollTo element a b w))
                | None \<Rightarrow> Inl TypeError)
           | None \<Rightarrow>
               (case scroll_args scrollPos of
                  Inl e \<Rightarrow> Inl e
                | Inr (a, b) \<Rightarrow> Inr (window_scrollTo a b w))))"

section \<open>The hook \<^verbatim>\<open>useScrollRestoration\<close> (lines 61 to 110)\<close>

text \<open>
  The hook of the TypeScript file, with the store functions of that file. The hook of the
  second file (lines 162 to 211) has the same body; it starts the key at \<^verbatim>\<open>null\<close>
  instead of \<^verbatim>\<open>""\<close> and passes \<^verbatim>\<open>restoreScrollPos\<close> a third argument that the
  function does not take. It is not translated a second time.

  The options of a render. \<^verbatim>\<open>router\<close> only names the emitter of the two route events
  and is not a field; \<^verbatim>\<open>enabled\<close> defaults to \<^verbatim>\<open>true\<close>.
\<close>

record options =
  opt_enabled :: "bool option"
  opt_selector :: "string option"
  opt_delay :: "int option"

text \<open>
  The three handlers of one run of the second effect close over the \<^verbatim>\<open>key\<close>,
  \<^verbatim>\<open>selector\<close> and \<^verbatim>\<open>delay\<close> of the render that ran it. The callback given to
  \<^verbatim>\<open>setTimeout\<close> closes over \<^verbatim>\<open>selector\<close>; the key it uses is read from
  \<^verbatim>\<open>window.history.state\<close> when it runs.
\<close>

record closure =
  cl_key :: string
  cl_selector :: "string option"
  cl_delay :: "int option"

record timer =
  tm_selector :: "string option"
  tm_delay :: int

text \<open>
  The state of one consumer of the hook: the page, the \<^verbatim>\<open>useState\<close> cell, the
  dependency array \<^verbatim>\<open>[enabled, key, selector]\<close> of the last run of the second effect
  (\<open>None\<close> while the consumer is not mounted), the handlers now attached, and the timers that
  \<^verbatim>\<open>setTimeout\<close> registered and that have not fired. No line of the file keeps the
  identifier \<^verbatim>\<open>setTimeout\<close> returns or calls \<^verbatim>\<open>clearTimeout\<close>.
\<close>

record hook =
  page :: world
  key_state :: string
  deps :: "(bool \<times> string \<times> string option) option"
  listeners :: "closure option"
  timers :: "timer list"

type_synonym 'a outcome = "'a \<times> error option"

text \<open>Lines 75 to 78.\<close>

definition onBeforeUnload :: "closure \<Rightarrow> hook \<Rightarrow> hook outcome" where
  "onBeforeUnload c st =
     (let st1 = st\<lparr>page := deleteScrollPos (cl_key c) (page st)\<rparr>
      in case history_state (page st1) of
           None \<Rightarrow> (st1, Some TypeError)
         | Some k \<Rightarrow> (st1\<lparr>page := deleteScrollPos k (page st1)\<rparr>, None))"

text \<open>Lines 81 to 83.\<close>

definition onRouteChangeStart :: "closure \<Rightarrow> hook \<Rightarrow> hook outcome" where
  "onRouteChangeStart c st =
     (st\<lparr>page := saveScrollPos (cl_key c) (cl_selector c) (page st)\<rparr>, None)"

text \<open>
  Lines 91 and 92, and again lines 95 and 96: restore, then delete, each under the key that
  \<^verbatim>\<open>window.history.state\<close> holds when the line runs.
\<close>

definition restore_then_delete :: "string option \<Rightarrow> hook \<Rightarrow> hook outcome" where
  "restore_then_delete selector st =
     (case history_state (page st) of
        None \<Rightarrow> (st, Some TypeError)
      | Some k \<Rightarrow>
          (case restoreScrollPos k selector (page st) of
             Inl e \<Rightarrow> (st, Some e)
           | Inr w \<Rightarrow>
               (case history_state w of
                  None \<Rightarrow> (st\<lparr>page := w\<rparr>, Some TypeError)
                | Some k' \<Rightarrow> (st\<lparr>page := deleteScrollPos k' w\<rparr>, None))))"

text \<open>Lines 86 to 98.\<close>

definition onRouteChangeComplete :: "closure \<Rightarrow> hook \<Rightarrow> hook outcome" where
  "onRouteChangeComplete c st =
     (case history_state (page st) of
        None \<Rightarrow> (st, Some TypeError)
      | Some k \<Rightarrow>
          (let st1 = st\<lparr>key_state := k\<rparr>
           in case cl_delay c of
                Some d \<Rightarrow>
                  (st1\<lparr>timers := timers st1 @ [\<lparr>tm_selector = cl_selector c, tm_delay = d\<rparr>]\<rparr>,
                   None)
              | None \<Rightarrow> restore_then_delete (cl_selector c) st1))"

text \<open>
  The second effect (lines 71 to 109) and its cleanup (lines 104 to 108): the cleanup detaches
  the three handlers and does nothing else.
\<close>

definition effect :: "bool \<Rightarrow> string \<Rightarrow> string option \<Rightarrow> int option \<Rightarrow> hook \<Rightarrow> hook" where
  "effect enabled key selector delay st =
     (if \<not> enabled then st
      else st\<lparr>listeners := Some \<lparr>cl_key = key, cl_selector = selector, cl_delay = delay\<rparr>\<rparr>)"

definition cleanup :: "hook \<Rightarrow> hook" where
  "cleanup st = st\<lparr>listeners := None\<rparr>"

text \<open>
  One render of the consumer followed by its effects. The first render starts the cell at
  \<^verbatim>\<open>""\<close>, runs the first effect (line 69), which reads \<^verbatim>\<open>window.history.state.key\<close>,
  and the second with the key of that render, \<^verbatim>\<open>""\<close>. A later render runs the cleanup and
  the second effect again when \<^verbatim>\<open>[enabled, key, selector]\<close> has changed;
  \<^verbatim>\<open>delay\<close> is not in the array.
\<close>

definition useScrollRestoration :: "options \<Rightarrow> hook \<Rightarrow> hook outcome" where
  "useScrollRestoration opts st =
     (let enabled = (case opt_enabled opts of None \<Rightarrow> True | Some b \<Rightarrow> b);
          selector = opt_selector opts;
          delay = opt_delay opts
      in case deps st of
           None \<Rightarrow>
             (case history_state (page st) of
                None \<Rightarrow> (st, Some TypeError)
              | Some k \<Rightarrow>
                  (effect enabled [] selector delay
                     (st\<lparr>key_state := k, deps := Some (enabled, [], selector)\<rparr>),
                   None))
         | Some d \<Rightarrow>
             if d = (enabled, key_state st, selector) then (st, None)
             else
               (effect enabled (key_state st) selector delay
                  (cleanup (st\<lparr>deps := Some (enabled, key_state st, selector)\<rparr>)),
                None))"

text \<open>Unmounting the consumer runs the cleanup of the last run of the second effect.\<close>

definition unmount :: "hook \<Rightarrow> hook" where
  "unmount st = (cleanup st)\<lparr>deps := None\<rparr>"

text \<open>
  What can happen to a consumer: a render, the unmount, the three signals (delivered to the
  handlers now attached), a timer of the pending list firing, and the host router moving
  \<^verbatim>\<open>window.history.state\<close> to another entry.
\<close>

datatype event =
    Render options
  | Unmount
  | BeforeUnload
  | RouteChangeStart
  | RouteChangeComplete
  | Timeout nat
  | Navigate string

definition dispatch :: "(closure \<Rightarrow> hook \<Rightarrow> hook outcome) \<Rightarrow> hook \<Rightarrow> hook outcome" where
  "dispatch handler st = (case listeners st of None \<Rightarrow> (st, None) | Some c \<Rightarrow> handler c st)"

fun step :: "event \<Rightarrow> hook \<Rightarrow> hook outcome" where
  "step (Render opts) st = useScrollRestoration opts st"
| "step Unmount st = (unmount st, None)"
| "step BeforeUnload st = dispatch onBeforeUnload st"
| "step RouteChangeStart st = dispatch onRouteChangeStart st"
| "step RouteChangeComplete st = dispatch onRouteChangeComplete st"
| "step (Timeout i) st =
     (if i < length (timers st)
      then restore_then_delete (tm_selector (timers st ! i))
             (st\<lparr>timers := take i (timers st) @ drop (Suc i) (timers st)\<rparr>)
      else (st, None))"
| "step (Navigate k) st = (st\<lparr>page := (page st)\<lparr>history_state := Some k\<rparr>\<rparr>, None)"

text \<open>A sequence of events; an exception a handler throws is reported and the page goes on.\<close>

fun run :: "event list \<Rightarrow> hook \<Rightarrow> hook \<times> error list" where
  "run [] st = (st, [])"
| "run (e # es) st =
     (case step e st of
        (st', err) \<Rightarrow>
          (case run es st' of
             (st'', errs) \<Rightarrow> (st'', (case err of None \<Rightarrow> [] | Some x \<Rightarrow> [x]) @ errs)))"

section \<open>Notions of the specification and example pages\<close>

text \<open>
  The offset of the selected scroll container, in the specification's words: the designated
  element if the selector resolves to an existing element, otherwise the page viewport.
\<close>

definition target_offset :: "string option \<Rightarrow> world \<Rightarrow> scrollpos" where
  "target_offset selector w =
     (case truthy selector of
        None \<Rightarrow> window_scroll w
      | Some s \<Rightarrow>
          (case document w s of
             None \<Rightarrow> window_scroll w
           | Some element \<Rightarrow> element_scroll w element))"

text \<open>
  A teardown of the controller: the consumer unmounts, or a render disables a configuration
  that was enabled.
\<close>

definition teardown :: "event \<Rightarrow> hook \<Rightarrow> bool" where
  "teardown e st =
     (case e of
        Unmount \<Rightarrow> True
      | Render opts \<Rightarrow>
          opt_enabled opts = Some False
          \<and> (case deps st of None \<Rightarrow> False | Some (enabled, key, selector) \<Rightarrow> enabled)
      | _ \<Rightarrow> False)"

text \<open>
  A page with two saved positions, \<open>(0, 500)\<close> under \<^verbatim>\<open>K1\<close> and \<open>(3, 40)\<close> under
  \<^verbatim>\<open>K2\<close>, the viewport at \<open>(7, 9)\<close>, one element matched by \<^verbatim>\<open>#list\<close>, and the
  history at entry \<^verbatim>\<open>K0\<close>.
\<close>

definition page0 :: world where
  \<open>page0 =
     \<lparr>sessionStorage =
        [storage_key ''K1'' \<mapsto> ''{"x":0,"y":500}'', storage_key ''K2'' \<mapsto> ''{"x":3,"y":40}''],
      window_scroll = \<lparr>pos_x = 7, pos_y = 9\<rparr>,
      document = [''#list'' \<mapsto> 0],
      element_scroll = (\<lambda>_. \<lparr>pos_x = 1, pos_y = 2\<rparr>),
      history_state = Some ''K0''\<rparr>\<close>

text \<open>The same page with the entry of \<^verbatim>\<open>K1\<close> cut short, and with that entry empty.\<close>

definition page_truncated :: world where
  \<open>page_truncated =
     page0\<lparr>sessionStorage := (sessionStorage page0)(storage_key ''K1'' \<mapsto> ''{"x":0,"y":500'')\<rparr>\<close>

definition page_empty :: world where
  \<open>page_empty = page0\<lparr>sessionStorage := (sessionStorage page0)(storage_key ''K1'' \<mapsto> [])\<rparr>\<close>

text \<open>
  A consumer that is mounted and enabled, its handlers attached by the render that saw
  \<open>key\<close>; a consumer before its first render; the options \<^verbatim>\<open>{ delay: 200 }\<close>.
\<close>

definition tracking :: "world \<Rightarrow> string \<Rightarrow> string option \<Rightarrow> int option \<Rightarrow> hook" where
  "tracking w key selector delay =
     \<lparr>page = w, key_state = key, deps = Some (True, key, selector),
      listeners = Some \<lparr>cl_key = key, cl_selector = selector, cl_delay = delay\<rparr>,
      timers = []\<rparr>"

definition unmounted :: "world \<Rightarrow> hook" where
  "unmounted w = \<lparr>page = w, key_state = [], deps = None, listeners = None, timers = []\<rparr>"

definition delayed :: options where
  "delayed = \<lparr>opt_enabled = None, opt_selector = None, opt_delay = Some 200\<rparr>"

text \<open>
  The options \<^verbatim>\<open>{ enabled: false, delay: 200 }\<close>, and a consumer at \<^verbatim>\<open>K1\<close> with
  one timer pending.
\<close>

definition disabled :: options where
  "disabled = \<lparr>opt_enabled = Some False, opt_selector = None, opt_delay = Some 200\<rparr>"

definition pending :: hook where
  "pending =
     (tracking (page0\<lparr>history_state := Some ''K1''\<rparr>) ''K1'' None (Some 200))
       \<lparr>timers := [\<lparr>tm_selector = None, tm_delay = 200\<rparr>]\<rparr>"


definition navigation_then_unmount :: "event list" where
  "navigation_then_unmount =
     [Render delayed, Render delayed, Navigate ''K1'', RouteChangeComplete, Render delayed, Unmount]"

section \<open>Basic facts\<close>

lemma storage_key_inj [simp]: "storage_key k = storage_key k' \<longleftrightarrow> k = k'"
  by (simp add: storage_key_def)

lemma delete_removes [simp]: "sessionStorage (deleteScrollPos k w) (storage_key k) = None"
  by (simp add: deleteScrollPos_def)

lemma save_stores_target:
  "sessionStorage (saveScrollPos k s w) =
     (sessionStorage w)(storage_key k \<mapsto> JSON_stringify (target_offset s w))"
  by (simp add: saveScrollPos_def target_offset_def Let_def split: option.splits)

lemma restore_keeps_storage:
  "restoreScrollPos k s w = Inr w' \<Longrightarrow> sessionStorage w' = sessionStorage w"
  by (auto simp: restoreScrollPos_def window_scrollTo_def element_scrollTo_def
      split: sum.splits option.splits prod.splits)

lemma restore_keeps_history:
  "restoreScrollPos k s w = Inr w' \<Longrightarrow> history_state w' = history_state w"
  by (auto simp: restoreScrollPos_def window_scrollTo_def element_scrollTo_def
      split: sum.splits option.splits prod.splits)

text \<open>
  The three reads of \<^verbatim>\<open>window.history.state.key\<close> around a restore see one key, since
  neither \<^verbatim>\<open>setKey\<close> nor \<^verbatim>\<open>restoreScrollPos\<close> moves the history.
\<close>

lemma restore_then_delete_eq:
  assumes "history_state (page st) = Some k"
  shows "restore_then_delete selector st =
           (case restoreScrollPos k selector (page st) of
              Inl e \<Rightarrow> (st, Some e)
            | Inr w \<Rightarrow> (st\<lparr>page := deleteScrollPos k w\<rparr>, None))"
  using assms
  by (auto simp: restore_then_delete_def split: sum.splits option.splits
      dest: restore_keeps_history)

subsection \<open>The example pages, evaluated\<close>

lemma parse_K1: \<open>JSON_parse ''{"x":0,"y":500}'' = Inr (JObj [(''x'', JNum 0), (''y'', JNum 500)])\<close>
  by code_simp


lemma parse_truncated: \<open>JSON_parse ''{"x":0,"y":500'' = Inl SyntaxError\<close>
  by code_simp

lemma parse_empty: "JSON_parse [] = Inl SyntaxError"
  by code_simp

lemma stringify_0_120: \<open>JSON_stringify \<lparr>pos_x = 0, pos_y = 120\<rparr> = ''{"x":0,"y":120}''\<close>
  by code_simp

lemma stringify_7_9: \<open>JSON_stringify \<lparr>pos_x = 7, pos_y = 9\<rparr> = ''{"x":7,"y":9}''\<close>
  by code_simp

lemma page0_fields:
  \<open>history_state page0 = Some ''K0''\<close>
  \<open>window_scroll page0 = \<lparr>pos_x = 7, pos_y = 9\<rparr>\<close>
  \<open>document page0 ''#missing'' = None\<close>
  \<open>sessionStorage page0 (storage_key ''K1'') = Some ''{"x":0,"y":500}''\<close>
  \<open>sessionStorage page0 (storage_key ''K2'') = Some ''{"x":3,"y":40}''\<close>
  by (simp_all add: page0_def)

lemma restore_K1_page0:
  "restoreScrollPos ''K1'' None (page0\<lparr>history_state := h\<rparr>) =
     Inr (window_scrollTo 0 500 (page0\<lparr>history_state := h\<rparr>))"
  by (simp add: restoreScrollPos_def stored_scrollPos_def page0_def truthy_def parse_K1
      scroll_args_def)


lemma restore_K1_plain:
  "restoreScrollPos ''K1'' None page0 = Inr (window_scrollTo 0 500 page0)"
  by (simp add: restoreScrollPos_def stored_scrollPos_def page0_def truthy_def parse_K1
      scroll_args_def)

section \<open>The store\<close>

subsection \<open>Frame of the three operations\<close>

text \<open>
  Claim C10. Storage operations touch only the derived key of their argument: for distinct
  keys \<open>k\<close> and \<open>k'\<close>, \<^verbatim>\<open>deleteScrollPos(k)\<close> and \<^verbatim>\<open>saveScrollPos(k, s)\<close> leave what
  is stored under the storage key of \<open>k'\<close> (an entry or none) as it was, and a
  \<^verbatim>\<open>restoreScrollPos\<close> that returns leaves the whole storage as it was. (One that throws
  has thrown before any effect.)
\<close>

theorem store_frame:
  assumes "k' \<noteq> k"
  shows "sessionStorage (deleteScrollPos k w) (storage_key k') = sessionStorage w (storage_key k')
       \<and> sessionStorage (saveScrollPos k s w) (storage_key k') = sessionStorage w (storage_key k')
       \<and> (\<forall>w'. restoreScrollPos k s w = Inr w' \<longrightarrow> sessionStorage w' = sessionStorage w)"
  using assms by (auto simp: deleteScrollPos_def save_stores_target dest: restore_keeps_storage)

text \<open>
  Claim C10, at the example page: deleting, saving and restoring under \<^verbatim>\<open>K1\<close> leave the
  entry of \<^verbatim>\<open>K2\<close>.
\<close>

theorem store_frame_witness:
  \<open>''K2'' \<noteq> ''K1''
   \<and> sessionStorage (deleteScrollPos ''K1'' page0) (storage_key ''K2'') = Some ''{"x":3,"y":40}''
   \<and> sessionStorage (saveScrollPos ''K1'' None page0) (storage_key ''K2'') = Some ''{"x":3,"y":40}''
   \<and> restoreScrollPos ''K1'' None page0 = Inr (window_scrollTo 0 500 page0)
   \<and> sessionStorage (window_scrollTo 0 500 page0) (storage_key ''K2'') = Some ''{"x":3,"y":40}''\<close>
proof -
  have ne: "''K2'' \<noteq> ''K1''" by simp
  from store_frame [OF ne, of page0 None] restore_K1_plain page0_fields(5) ne show ?thesis
    by simp
qed

subsection \<open>One entry for each key\<close>

text \<open>
  Claim C9. \<open>sessionStorage\<close> maps a storage key to one string, so a key holds at most one
  entry. A second save under \<open>k\<close> overwrites the first: whatever happened to the page between
  the two saves (\<open>w1\<close> is any page with the storage the first save left), the storage after the
  second is the storage before the first with the one entry of \<open>k\<close> set to the offset the second
  save read. That offset is what is retrievable under \<open>k\<close>, and the second save adds no key.
\<close>

theorem save_overwrites:
  assumes "sessionStorage w1 = sessionStorage (saveScrollPos k s1 w0)"
  shows "sessionStorage (saveScrollPos k s2 w1) =
           (sessionStorage w0)(storage_key k \<mapsto> JSON_stringify (target_offset s2 w1))
       \<and> sessionStorage (saveScrollPos k s2 w1) (storage_key k) =
           Some (JSON_stringify (target_offset s2 w1))
       \<and> dom (sessionStorage (saveScrollPos k s2 w1)) = dom (sessionStorage w1)"
  using assms by (auto simp: save_stores_target)

text \<open>
  Claim C9, at the example page: a save at \<open>(7, 9)\<close>, a scroll to \<open>(0, 120)\<close>, a second save.
\<close>

theorem save_overwrites_witness:
  \<open>sessionStorage ((saveScrollPos ''K1'' None page0)\<lparr>window_scroll := \<lparr>pos_x = 0, pos_y = 120\<rparr>\<rparr>) =
     sessionStorage (saveScrollPos ''K1'' None page0)
   \<and> sessionStorage
       (saveScrollPos ''K1'' None
          ((saveScrollPos ''K1'' None page0)\<lparr>window_scroll := \<lparr>pos_x = 0, pos_y = 120\<rparr>\<rparr>)) =
     (sessionStorage page0)(storage_key ''K1'' \<mapsto> ''{"x":0,"y":120}'')\<close>
proof -
  let ?w1 = "(saveScrollPos ''K1'' None page0)\<lparr>window_scroll := \<lparr>pos_x = 0, pos_y = 120\<rparr>\<rparr>"
  have h: "sessionStorage ?w1 = sessionStorage (saveScrollPos ''K1'' None page0)" by simp
  have t: "target_offset None ?w1 = \<lparr>pos_x = 0, pos_y = 120\<rparr>"
    by (simp add: target_offset_def truthy_def)
  from save_overwrites [OF h, of None] h t show ?thesis
    by (simp add: stringify_0_120)
qed

subsection \<open>A selector that matches no element\<close>

text \<open>
  Claim C3 says that with a selector that matches no element both save and restore fall back
  to the viewport. The save does. The restore does not: at the example page the entry of
  \<^verbatim>\<open>K1\<close> holds \<open>(0, 500)\<close>, the viewport is at \<open>(7, 9)\<close>, and
  \<^verbatim>\<open>restoreScrollPos("K1", "#missing")\<close> returns with the page as it was.
\<close>

theorem missing_selector_counterexample:
  \<open>document page0 ''#missing'' = None
   \<and> sessionStorage page0 (storage_key ''K1'') = Some ''{"x":0,"y":500}''
   \<and> window_scroll page0 = \<lparr>pos_x = 7, pos_y = 9\<rparr>
   \<and> restoreScrollPos ''K1'' (Some ''#missing'') page0 = Inr page0\<close>
  by (simp add: restoreScrollPos_def stored_scrollPos_def page0_def truthy_def parse_K1)

text \<open>
  Claim C3, amended. For every key and every non-empty selector that matches no element, save
  writes the viewport's offset as the stored entry, and restore calls no scroll operation: it
  returns the page unchanged, or throws what reading the stored entry throws.
\<close>

theorem missing_selector:
  assumes "s \<noteq> []" and "document w s = None"
  shows "sessionStorage (saveScrollPos k (Some s) w) =
           (sessionStorage w)(storage_key k \<mapsto> JSON_stringify (window_scroll w))
       \<and> restoreScrollPos k (Some s) w =
           (case stored_scrollPos k w of Inl e \<Rightarrow> Inl e | Inr scrollPos \<Rightarrow> Inr w)"
  using assms
  by (simp add: saveScrollPos_def restoreScrollPos_def truthy_def Let_def split: sum.splits)

text \<open>Claim C3, amended, at the example page.\<close>

theorem missing_selector_witness:
  \<open>''#missing'' \<noteq> [] \<and> document page0 ''#missing'' = None
   \<and> sessionStorage (saveScrollPos ''K0'' (Some ''#missing'') page0) (storage_key ''K0'') =
       Some ''{"x":7,"y":9}''
   \<and> restoreScrollPos ''K1'' (Some ''#missing'') page0 = Inr page0\<close>
proof -
  have ne: "''#missing'' \<noteq> []" by simp
  have d: "document page0 ''#missing'' = None" by (simp add: page0_def)
  have p: "stored_scrollPos ''K1'' page0 = Inr (JObj [(''x'', JNum 0), (''y'', JNum 500)])"
    by (simp add: stored_scrollPos_def page0_def parse_K1)
  from missing_selector [OF ne d, of "''K0''"] missing_selector [OF ne d, of "''K1''"] ne d p
  show ?thesis by (simp add: page0_fields stringify_7_9)
qed

subsection \<open>A stored entry that does not parse\<close>

text \<open>
  Claim C4 says that a stored entry that fails to parse is treated as absent and that the
  failure never reaches the caller. At the page whose entry of \<^verbatim>\<open>K1\<close> is cut short,
  \<^verbatim>\<open>JSON.parse\<close> throws and \<^verbatim>\<open>restoreScrollPos\<close> throws with it.
\<close>

theorem malformed_entry_counterexample:
  \<open>sessionStorage page_truncated (storage_key ''K1'') = Some ''{"x":0,"y":500''
   \<and> JSON_parse ''{"x":0,"y":500'' = Inl SyntaxError
   \<and> restoreScrollPos ''K1'' None page_truncated = Inl SyntaxError\<close>
  by (simp add: restoreScrollPos_def stored_scrollPos_def page_truncated_def parse_truncated)

text \<open>
  Claim C4, amended. Of the stored entries on which \<^verbatim>\<open>JSON.parse\<close> throws, only the
  empty string is treated as absent: restore then positions the target it resolves at
  \<open>(0, 0)\<close> (and scrolls nothing for a non-empty selector that matches no element). On every
  other such entry restore scrolls nothing and the \<open>SyntaxError\<close> reaches the caller.
\<close>

theorem malformed_entry:
  assumes "sessionStorage w (storage_key k) = Some j" and "JSON_parse j = Inl SyntaxError"
  shows "restoreScrollPos k selector w =
           (if j = [] then
              (case truthy selector of
                 None \<Rightarrow> Inr (window_scrollTo 0 0 w)
               | Some s \<Rightarrow>
                   (case document w s of
                      None \<Rightarrow> Inr w
                    | Some element \<Rightarrow> Inr (element_scrollTo element 0 0 w)))
            else Inl SyntaxError)"
  using assms
  by (simp add: restoreScrollPos_def stored_scrollPos_def origin_def scroll_args_def
      split: option.splits)

text \<open>Claim C4, amended, at the page with the truncated entry and at the page with the empty one.\<close>

theorem malformed_entry_witness:
  \<open>sessionStorage page_truncated (storage_key ''K1'') = Some ''{"x":0,"y":500''
   \<and> JSON_parse ''{"x":0,"y":500'' = Inl SyntaxError
   \<and> restoreScrollPos ''K1'' (Some ''#list'') page_truncated = Inl SyntaxError
   \<and> sessionStorage page_empty (storage_key ''K1'') = Some []
   \<and> JSON_parse [] = Inl SyntaxError
   \<and> restoreScrollPos ''K1'' None page_empty = Inr (window_scrollTo 0 0 page_empty)\<close>
proof -
  have a: \<open>sessionStorage page_truncated (storage_key ''K1'') = Some ''{"x":0,"y":500''\<close>
    by (simp add: page_truncated_def)
  have b: "sessionStorage page_empty (storage_key ''K1'') = Some []"
    by (simp add: page_empty_def)
  from malformed_entry [OF a parse_truncated, of "Some ''#list''"]
    malformed_entry [OF b parse_empty, of None] a b parse_truncated parse_empty
  show ?thesis by (simp add: truthy_def)
qed

subsection \<open>The second file's save\<close>

text \<open>
  Claim C5 says that save never throws when the selector resolves to no element. The save of
  the TypeScript file returns for every input: it has no failing branch. The save of the second
  file reads \<^verbatim>\<open>element.scrollLeft\<close> of \<^verbatim>\<open>null\<close>: at the example page
  \<^verbatim>\<open>saveScrollPos("K0", "#missing")\<close> throws a \<open>TypeError\<close> and stores nothing.
\<close>

theorem second_file_save_throws:
  \<open>document page0 ''#missing'' = None
   \<and> saveScrollPos_js ''K0'' (Some ''#missing'') page0 = Inl TypeError\<close>
  by (simp add: saveScrollPos_js_def page0_def truthy_def)

subsection \<open>Save, then restore, for integral offsets\<close>

text \<open>
  The decimal text \<open>show_nat\<close> writes is the text \<open>digits_val\<close> reads: every character is a
  digit, and only the number \<open>0\<close> starts with the digit \<^verbatim>\<open>0\<close>.
\<close>

lemma digit_cases:
  assumes "d < 10"
  shows "is_digit (digit_char d) \<and> digit_val (digit_char d) = d
       \<and> digit_char d \<noteq> CHR ''-'' \<and> \<not> is_ws (digit_char d)
       \<and> (digit_char d = CHR ''0'' \<longleftrightarrow> d = 0)"
proof -
  from assms have "d \<in> {0, 1, 2, 3, 4, 5, 6, 7, 8, 9}" by auto
  then show ?thesis
    by (auto simp: digit_char_def is_digit_def digit_val_def is_ws_def)
qed

lemma show_nat_zero: "show_nat 0 = ''0''"
  by (simp add: show_nat.simps digit_char_def)

lemma show_nat_hd:
  "show_nat n \<noteq> [] \<and> is_digit (hd (show_nat n)) \<and> (hd (show_nat n) = CHR ''0'' \<longleftrightarrow> n = 0)"
proof (induction n rule: show_nat.induct)
  case (1 n)
  show ?case
  proof (cases "n < 10")
    case True
    then show ?thesis by (simp add: show_nat.simps [of n] digit_cases)
  next
    case False
    then have "n div 10 \<noteq> 0" by simp
    with 1 False show ?thesis by (simp add: show_nat.simps [of n])
  qed
qed

lemma digits_val_show_nat:
  "digits_val acc (show_nat n @ r) = digits_val (acc * 10 ^ length (show_nat n) + n) r"
proof (induction n arbitrary: acc r rule: show_nat.induct)
  case (1 n)
  show ?case
  proof (cases "n < 10")
    case True
    then show ?thesis by (simp add: show_nat.simps [of n] digit_cases mult.commute)
  next
    case False
    have m: "n mod 10 < 10" by simp
    have "digits_val acc (show_nat n @ r) =
            digits_val acc (show_nat (n div 10) @ digit_char (n mod 10) # r)"
      using False by (simp add: show_nat.simps [of n])
    also have "\<dots> = digits_val (acc * 10 ^ length (show_nat (n div 10)) + n div 10)
                       (digit_char (n mod 10) # r)"
      using 1 False by simp
    also have "\<dots> = digits_val (10 * (acc * 10 ^ length (show_nat (n div 10)) + n div 10) + n mod 10) r"
      using digit_cases [OF m] by simp
    also have "10 * (acc * 10 ^ length (show_nat (n div 10)) + n div 10) + n mod 10 =
                 acc * 10 ^ length (show_nat n) + n"
      using False by (simp add: show_nat.simps [of n] algebra_simps)
    finally show ?thesis .
  qed
qed

text \<open>A number that save wrote, followed by a comma or a closing brace, parses to itself.\<close>

lemma parse_int_part_show_nat:
  assumes "r = [] \<or> \<not> is_digit (hd r)"
  shows "parse_int_part (show_nat n @ r) = Inr (n, r)"
proof (cases "n = 0")
  case True
  then show ?thesis by (simp add: parse_int_part_def show_nat_zero is_digit_def)
next
  case False
  obtain d ds where s: "show_nat n = d # ds"
    using show_nat_hd [of n] by (cases "show_nat n") auto
  with show_nat_hd [of n] False have d: "is_digit d" "d \<noteq> CHR ''0''" by auto
  have "digits_val 0 (show_nat n @ r) = (n, r)"
    using assms by (cases r) (simp_all add: digits_val_show_nat del: append_Nil2)
  with s d show ?thesis by (simp add: parse_int_part_def)
qed

lemma parse_number_show_int:
  assumes "c = CHR '','' \<or> c = CHR ''}''"
  shows "parse_number (show_int i @ c # rest) = Inr (JNum i, c # rest)"
proof -
  have c: "\<not> is_digit c" "c \<notin> set ''.eE''" using assms by (auto simp: is_digit_def)
  show ?thesis
  proof (cases "i < 0")
    case True
    then show ?thesis
      using c by (simp add: parse_number_def show_int_def parse_int_part_show_nat)
  next
    case False
    obtain d ds where s: "show_nat (nat i) = d # ds"
      using show_nat_hd [of "nat i"] by (cases "show_nat (nat i)") auto
    with show_nat_hd [of "nat i"] have "is_digit d" by simp
    then have "d \<noteq> CHR ''-''" by (auto simp: is_digit_def)
    with s have "show_nat (nat i) @ c # rest \<noteq> [] \<and> hd (show_nat (nat i) @ c # rest) \<noteq> CHR ''-''"
      by simp
    with False c parse_int_part_show_nat [of "c # rest" "nat i"] show ?thesis
      by (simp add: parse_number_def show_int_def Let_def)
  qed
qed

lemma show_int_hd:
  "\<exists>d ds. show_int i = d # ds \<and> (d = CHR ''-'' \<or> is_digit d)"
proof (cases "i < 0")
  case True then show ?thesis by (simp add: show_int_def)
next
  case False
  with show_nat_hd [of "nat i"] show ?thesis
    by (cases "show_nat (nat i)") (auto simp: show_int_def)
qed

lemma parse_value_show_int:
  assumes "c = CHR '','' \<or> c = CHR ''}''"
  shows "parse_value (Suc n) (show_int i @ c # rest) = Inr (JNum i, c # rest)"
proof -
  obtain d ds where s: "show_int i = d # ds" and d: "d = CHR ''-'' \<or> is_digit d"
    using show_int_hd by blast
  from d have nw: "\<not> is_ws d" and nb: "d \<noteq> CHR ''{''" "d \<noteq> CHR ''[''" "d \<noteq> CHR 0x22"
    by (auto simp: is_ws_def is_digit_def)
  have "parse_value (Suc n) (show_int i @ c # rest) = parse_number (d # ds @ c # rest)"
    using s d nw nb by (auto simp: skip_ws_def)
  also have "\<dots> = Inr (JNum i, c # rest)"
    using parse_number_show_int [OF assms, of i rest] s by simp
  finally show ?thesis .
qed

text \<open>\<^verbatim>\<open>JSON.parse(JSON.stringify({ x: a, y: b }))\<close> is the object with the same two members.\<close>

lemma JSON_roundtrip:
  "JSON_parse (JSON_stringify p) = Inr (JObj [(''x'', JNum (pos_x p)), (''y'', JNum (pos_y p))])"
proof -
  obtain f where f: "2 * length (JSON_stringify p) + 2 = Suc (Suc (Suc (Suc f)))"
    by (simp add: JSON_stringify_def)
  show ?thesis
    unfolding JSON_parse_def f
    by (subst parse_value.simps(2))
      (simp add: JSON_stringify_def skip_ws_def is_ws_def parse_value_show_int escapes_def
        del: parse_value.simps)
qed


lemma scroll_args_position:
  "scroll_args (JObj [(''x'', JNum a), (''y'', JNum b)]) = Inr (a, b)"
  by (simp add: scroll_args_def)

lemma stored_after_save:
  assumes "sessionStorage w1 = sessionStorage (saveScrollPos k s w)"
  shows "stored_scrollPos k w1 =
           Inr (JObj [(''x'', JNum (pos_x (target_offset s w))), (''y'', JNum (pos_y (target_offset s w)))])"
proof -
  have "JSON_stringify (target_offset s w) \<noteq> []" by (simp add: JSON_stringify_def)
  with assms show ?thesis
    by (simp add: stored_scrollPos_def save_stores_target JSON_roundtrip)
qed

text \<open>
  A save under \<open>k\<close> with selector \<open>s\<close>, any scrolling of the page in between (\<open>w1\<close> keeps the
  storage of the save and the elements the selectors match), then a restore under \<open>k\<close> with
  \<open>s\<close>: the restore returns, and when \<open>s\<close> is absent or matches an element, the target is at
  the offset it had when it was saved. This is the round trip for the integral offsets of this
  model; for a fractional offset it rests on the engine's conversion between doubles and
  decimal text, which is outside the model.
\<close>

lemma save_then_restore_integral:
  assumes "sessionStorage w1 = sessionStorage (saveScrollPos k s w)"
    and "document w1 = document w"
  shows "\<exists>w2. restoreScrollPos k s w1 = Inr w2
           \<and> (truthy s = None \<or> (\<exists>sel el. truthy s = Some sel \<and> document w sel = Some el)
                \<longrightarrow> target_offset s w2 = target_offset s w)"
  using assms
  by (auto simp: restoreScrollPos_def stored_after_save [OF assms(1)] scroll_args_position
      target_offset_def window_scrollTo_def element_scrollTo_def split: option.splits)

lemma scrollpos_eta [simp]: "\<lparr>pos_x = pos_x p, pos_y = pos_y p\<rparr> = (p :: scrollpos)"
  by (cases p) simp

text \<open>A restore right after the save leaves the page as the save left it.\<close>

lemma restore_after_save_same_page:
  "restoreScrollPos k s (saveScrollPos k s w) = Inr (saveScrollPos k s w)"
proof -
  have st: "stored_scrollPos k (saveScrollPos k s w) =
           Inr (JObj [(''x'', JNum (pos_x (target_offset s w))), (''y'', JNum (pos_y (target_offset s w)))])"
    by (rule stored_after_save) simp
  show ?thesis
    unfolding restoreScrollPos_def st
    by (auto simp: scroll_args_position target_offset_def saveScrollPos_def Let_def
        window_scrollTo_def element_scrollTo_def split: option.splits)
qed

section \<open>The controller\<close>

subsection \<open>The unload signal\<close>

text \<open>
  Claim C6. The current key of the controller is the \<^verbatim>\<open>key\<close> its attached handlers
  closed over. For every state whose handlers hold key \<open>A\<close> while the host reports \<open>B\<close> as the
  active navigation key (\<open>A\<close> and \<open>B\<close> equal or not), the unload signal returns normally and
  leaves no stored entry under the storage key of \<open>A\<close> and none under that of \<open>B\<close>; it touches no
  other entry, and it changes neither the key cell nor the attached handlers.
\<close>

theorem unload_clears_both:
  assumes "listeners st = Some c" and "cl_key c = A" and "history_state (page st) = Some B"
    and "step BeforeUnload st = (st', err)"
  shows "err = None
       \<and> sessionStorage (page st') (storage_key A) = None
       \<and> sessionStorage (page st') (storage_key B) = None
       \<and> (\<forall>sk. sk \<noteq> storage_key A \<and> sk \<noteq> storage_key B \<longrightarrow>
             sessionStorage (page st') sk = sessionStorage (page st) sk)
       \<and> key_state st' = key_state st \<and> listeners st' = listeners st"
  using assms
  by (auto simp: dispatch_def onBeforeUnload_def deleteScrollPos_def Let_def)

text \<open>
  Claim C6, at the example page: the handlers hold \<^verbatim>\<open>K1\<close>, the host reports
  \<^verbatim>\<open>K2\<close>, both have an entry before the signal and none after it.
\<close>

theorem unload_clears_both_witness:
  \<open>listeners (tracking (page0\<lparr>history_state := Some ''K2''\<rparr>) ''K1'' None None) =
     Some \<lparr>cl_key = ''K1'', cl_selector = None, cl_delay = None\<rparr>
   \<and> history_state (page (tracking (page0\<lparr>history_state := Some ''K2''\<rparr>) ''K1'' None None)) =
       Some ''K2''
   \<and> sessionStorage (page (tracking (page0\<lparr>history_state := Some ''K2''\<rparr>) ''K1'' None None))
       (storage_key ''K1'') = Some ''{"x":0,"y":500}''
   \<and> sessionStorage (page (tracking (page0\<lparr>history_state := Some ''K2''\<rparr>) ''K1'' None None))
       (storage_key ''K2'') = Some ''{"x":3,"y":40}''
   \<and> snd (step BeforeUnload (tracking (page0\<lparr>history_state := Some ''K2''\<rparr>) ''K1'' None None)) =
       None
   \<and> sessionStorage
       (page (fst (step BeforeUnload
          (tracking (page0\<lparr>history_state := Some ''K2''\<rparr>) ''K1'' None None))))
       (storage_key ''K1'') = None
   \<and> sessionStorage
       (page (fst (step BeforeUnload
          (tracking (page0\<lparr>history_state := Some ''K2''\<rparr>) ''K1'' None None))))
       (storage_key ''K2'') = None
   \<and> key_state (fst (step BeforeUnload
        (tracking (page0\<lparr>history_state := Some ''K2''\<rparr>) ''K1'' None None))) = ''K1''\<close>
proof -
  let ?st = "tracking (page0\<lparr>history_state := Some ''K2''\<rparr>) ''K1'' None None"
  let ?c = "\<lparr>cl_key = ''K1'', cl_selector = None, cl_delay = None\<rparr>"
  have l: "listeners ?st = Some ?c" and p: "page ?st = page0\<lparr>history_state := Some ''K2''\<rparr>"
    and ks: "key_state ?st = ''K1''"
    by (simp_all add: tracking_def)
  have k: "cl_key ?c = ''K1''" by simp
  have h: "history_state (page ?st) = Some ''K2''" by (simp add: p)
  have e: "step BeforeUnload ?st = (fst (step BeforeUnload ?st), snd (step BeforeUnload ?st))"
    by simp
  from unload_clears_both [OF l k h e] l h ks show ?thesis
    by (simp add: p page0_fields)
qed

subsection \<open>Navigation complete, no delay\<close>



subsection \<open>Navigation complete, with a delay\<close>




subsection \<open>Teardown with a timer pending\<close>

text \<open>
  Claim C2 says that a teardown before the timer fires cancels the pending restoration. In the
  execution \<open>navigation_then_unmount\<close> the timer is scheduled at \<^verbatim>\<open>K1\<close> and the consumer
  unmounts: the handlers are detached, the viewport is at \<open>(7, 9)\<close> and the entry of
  \<^verbatim>\<open>K1\<close> is stored. The timer then fires: the viewport moves to \<open>(0, 500)\<close> and the entry
  is deleted.
\<close>

theorem teardown_counterexample:
  \<open>listeners (fst (run navigation_then_unmount (unmounted page0))) = None
   \<and> window_scroll (page (fst (run navigation_then_unmount (unmounted page0)))) =
       \<lparr>pos_x = 7, pos_y = 9\<rparr>
   \<and> sessionStorage (page (fst (run navigation_then_unmount (unmounted page0)))) (storage_key ''K1'') =
       Some ''{"x":0,"y":500}''
   \<and> window_scroll (page (fst (run (navigation_then_unmount @ [Timeout 0]) (unmounted page0)))) =
       \<lparr>pos_x = 0, pos_y = 500\<rparr>
   \<and> sessionStorage (page (fst (run (navigation_then_unmount @ [Timeout 0]) (unmounted page0))))
       (storage_key ''K1'') = None\<close>
  by (simp add: navigation_then_unmount_def unmounted_def delayed_def useScrollRestoration_def
      effect_def cleanup_def unmount_def dispatch_def onRouteChangeComplete_def
      restore_then_delete_eq restore_K1_page0 window_scrollTo_def deleteScrollPos_def Let_def
      page0_fields)

text \<open>
  Claim C2, amended. A teardown (the consumer unmounts, or a render disables an enabled
  configuration) detaches the handlers and revokes no timer: the pending timers and the page
  are as before. A timer scheduled before the teardown that fires after it still restores and
  deletes, under the key \<^verbatim>\<open>window.history.state\<close> holds when it fires.
\<close>

theorem teardown_keeps_timers:
  assumes "teardown e st" and "step e st = (st1, err1)"
    and "i < length (timers st)" and "history_state (page st) = Some k"
    and "restoreScrollPos k (tm_selector (timers st ! i)) (page st) = Inr w"
    and "step (Timeout i) st1 = (st2, err2)"
  shows "err1 = None \<and> listeners st1 = None \<and> timers st1 = timers st \<and> page st1 = page st
       \<and> err2 = None \<and> page st2 = deleteScrollPos k w
       \<and> sessionStorage (page st2) (storage_key k) = None"
  using assms
  by (cases e)
    (auto simp: teardown_def unmount_def cleanup_def useScrollRestoration_def effect_def
      restore_then_delete_eq Let_def split: option.splits if_splits)

text \<open>
  Claim C2, amended, at the consumer with one timer pending: after the unmount, and after a
  render that disables it, the timer fires, moves the viewport to \<open>(0, 500)\<close> and deletes the
  entry of \<^verbatim>\<open>K1\<close>.
\<close>

theorem teardown_keeps_timers_witness:
  \<open>teardown Unmount pending \<and> teardown (Render disabled) pending
   \<and> 0 < length (timers pending) \<and> history_state (page pending) = Some ''K1''
   \<and> restoreScrollPos ''K1'' (tm_selector (timers pending ! 0)) (page pending) =
       Inr (window_scrollTo 0 500 (page0\<lparr>history_state := Some ''K1''\<rparr>))
   \<and> listeners (fst (step Unmount pending)) = None
   \<and> length (timers (fst (step Unmount pending))) = 1
   \<and> window_scroll (page (fst (step (Timeout 0) (fst (step Unmount pending))))) =
       \<lparr>pos_x = 0, pos_y = 500\<rparr>
   \<and> sessionStorage (page (fst (step (Timeout 0) (fst (step Unmount pending)))))
       (storage_key ''K1'') = None
   \<and> listeners (fst (step (Render disabled) pending)) = None
   \<and> window_scroll (page (fst (step (Timeout 0) (fst (step (Render disabled) pending))))) =
       \<lparr>pos_x = 0, pos_y = 500\<rparr>
   \<and> sessionStorage (page (fst (step (Timeout 0) (fst (step (Render disabled) pending)))))
       (storage_key ''K1'') = None\<close>
proof -
  let ?w = "window_scrollTo 0 500 (page0\<lparr>history_state := Some ''K1''\<rparr>)"
  have p: "page pending = page0\<lparr>history_state := Some ''K1''\<rparr>"
    and t: "timers pending = [\<lparr>tm_selector = None, tm_delay = 200\<rparr>]"
    by (simp_all add: pending_def tracking_def)
  have t1: "teardown Unmount pending" by (simp add: teardown_def)
  have t2: "teardown (Render disabled) pending"
    by (simp add: teardown_def disabled_def pending_def tracking_def)
  have i: "0 < length (timers pending)" by (simp add: t)
  have h: "history_state (page pending) = Some ''K1''" by (simp add: p)
  have r: "restoreScrollPos ''K1'' (tm_selector (timers pending ! 0)) (page pending) = Inr ?w"
    by (simp add: p t restore_K1_page0)
  have e1: "step Unmount pending = (fst (step Unmount pending), snd (step Unmount pending))"
    and e2: "step (Render disabled) pending =
               (fst (step (Render disabled) pending), snd (step (Render disabled) pending))"
    by simp_all
  have f1: "step (Timeout 0) (fst (step Unmount pending)) =
              (fst (step (Timeout 0) (fst (step Unmount pending))),
               snd (step (Timeout 0) (fst (step Unmount pending))))"
    and f2: "step (Timeout 0) (fst (step (Render disabled) pending)) =
              (fst (step (Timeout 0) (fst (step (Render disabled) pending))),
               snd (step (Timeout 0) (fst (step (Render disabled) pending))))"
    by simp_all
  note A = teardown_keeps_timers [OF t1 e1 i h r f1]
  note B = teardown_keeps_timers [OF t2 e2 i h r f2]
  have a1: "listeners (fst (step Unmount pending)) = None"
    and a2: "timers (fst (step Unmount pending)) = timers pending"
    and a3: "page (fst (step (Timeout 0) (fst (step Unmount pending)))) = deleteScrollPos ''K1'' ?w"
    using A by blast+
  have b1: "listeners (fst (step (Render disabled) pending)) = None"
    and b3: "page (fst (step (Timeout 0) (fst (step (Render disabled) pending)))) =
               deleteScrollPos ''K1'' ?w"
    using B by blast+
  have w: "window_scroll (deleteScrollPos ''K1'' ?w) = \<lparr>pos_x = 0, pos_y = 500\<rparr>"
    by (simp add: window_scrollTo_def deleteScrollPos_def)
  show ?thesis
    unfolding a1 a2 a3 b1 b3 w
    using t1 t2 i h r by (simp add: t)
qed

end
